theory Spec2Isabelle
  imports Complex_Main
begin

section \<open>JavaScript values reaching the hook\<close>

text \<open>
  At run time a field of the hook's parameters holds a number, a string or a bigint (the
  members of \<open>BigNumberish\<close>, the type of the addresses), and an omitted optional field
  reads as \<open>undefined\<close>. The declared type of the amount is not among the sources, so
  the model lets the field hold any of these values. A number is an IEEE double: not-a-number, an infinity, or a
  finite value, which is a rational (the negative zero is identified with zero: both are
  falsy, and \<open>Number\<close> leaves both unchanged).
\<close>

datatype jsnumber = NaN | PosInfinity | NegInfinity | Finite rat

datatype jsval =
    JUndefined
  | JNumber jsnumber
  | JString string
  | JBigInt int

text \<open>Truthiness, as the operator \<open>||\<close> and \<open>!\<close> test it.\<close>

fun falsy :: "jsval \<Rightarrow> bool" where
  "falsy JUndefined = True"
| "falsy (JNumber n) = (n = NaN \<or> n = Finite 0)"
| "falsy (JString s) = (s = [])"
| "falsy (JBigInt i) = (i = 0)"

text \<open>\<open>a || b\<close>: the left operand when it is truthy, otherwise the right one.\<close>

definition js_or :: "jsval \<Rightarrow> jsval \<Rightarrow> jsval" where
  "js_or a b = (if falsy a then b else a)"

subsection \<open>The conversion \<open>Number(v)\<close>\<close>

text \<open>
  A bigint converts to the nearest double, ties to the even significand, and to an
  infinity from \<open>2^1024 - 2^970\<close> on. \<open>bit_length\<close> is the number of binary digits
  of a magnitude.
\<close>

function bit_length :: "int \<Rightarrow> nat" where
  "bit_length n = (if n \<le> 0 then 0 else Suc (bit_length (n div 2)))"
  by pat_completeness auto
termination
  by (relation "measure nat") auto

declare bit_length.simps [simp del]

text \<open>The double nearest to a magnitude \<open>m \<ge> 0\<close>; \<open>None\<close> when it overflows.\<close>

definition round_to_double :: "int \<Rightarrow> int option" where
  "round_to_double m =
     (if m < 2 ^ 53 then Some m
      else
        let e = bit_length m - 53;
            q = m div 2 ^ e;
            r = m mod 2 ^ e;
            h = 2 ^ (e - 1);
            q' = (if h < r \<or> (r = h \<and> odd q) then q + 1 else q);
            v = q' * 2 ^ e
        in if 2 ^ 1024 \<le> v then None else Some v)"

definition Number_of_bigint :: "int \<Rightarrow> jsnumber" where
  "Number_of_bigint i =
     (if 0 \<le> i
      then (case round_to_double i of
              None \<Rightarrow> PosInfinity
            | Some v \<Rightarrow> Finite (of_int v))
      else (case round_to_double (- i) of
              None \<Rightarrow> NegInfinity
            | Some v \<Rightarrow> Finite (- of_int v)))"

text \<open>
  \<open>Number\<close> on a string parses a numeric literal of the language; the parser belongs to
  the runtime and is the parameter \<open>str2num\<close>.
\<close>

fun Number_js :: "(string \<Rightarrow> jsnumber) \<Rightarrow> jsval \<Rightarrow> jsnumber" where
  "Number_js str2num JUndefined = NaN"
| "Number_js str2num (JNumber n) = n"
| "Number_js str2num (JString s) = str2num s"
| "Number_js str2num (JBigInt i) = Number_of_bigint i"

section \<open>The fulfilment hook\<close>

subsection \<open>Data\<close>

datatype Status = Idle | Loading | Success | Error

datatype StepStatus = StepIdle | Approving | Selling | Sold | StepError

text \<open>The part of the SDK configuration the hook reads: \<open>config.starknetContracts.eth\<close>.\<close>

record StarknetContracts =
  eth :: string

record Config =
  starknetContracts :: StarknetContracts

text \<open>
  \<open>fulfillListingParameters = ApproveERC20Parameters & FulfillListingInfo\<close>: the flat
  record of the approval fields and the listing fields. \<open>'a\<close> is the type of the
  Starknet account object, which the hook only passes on.
\<close>

record 'a ApproveERC20Parameters =
  starknetAccount :: 'a
  startAmount :: jsval
  currencyAddress :: jsval

record 'a fulfillListingParameters = "'a ApproveERC20Parameters" +
  orderHash :: jsval
  tokenAddress :: jsval
  tokenId :: jsval
  brokerId :: jsval

text \<open>The object literal handed to \<open>fulfillListingCore\<close>.\<close>

record FulfillListingInfo =
  info_orderHash :: jsval
  info_tokenAddress :: jsval
  info_tokenId :: jsval
  info_brokerId :: jsval

record ApproveInfo =
  approve_currencyAddress :: jsval
  amount :: jsval

record 'a FulfillListingCall =
  call_starknetAccount :: 'a
  fulfillListingInfo :: FulfillListingInfo
  approveInfo :: ApproveInfo

text \<open>
  An awaited call settles with a value, settles with a rejection (or throws), or never
  settles.
\<close>

datatype ('e, 'r) promise = Fulfilled 'r | Rejected 'e | Pending

datatype js_error = JsError string

text \<open>
  What a run does to the outside, in order: the two state setters of React, the two SDK
  calls with their arguments, and \<open>console.error\<close>.
\<close>

datatype ('a, 'e) event =
    SetStatus Status
  | SetStepStatus StepStatus
  | CallApproveERC20 "'a ApproveERC20Parameters"
  | CallFulfillListingCore "Config option" "'a FulfillListingCall"
  | ConsoleError 'e

text \<open>
  The state of the hook: the two \<open>useState\<close> cells, and the log of the effects so far.
\<close>

record ('a, 'e) hook_state =
  status :: Status
  stepStatus :: StepStatus
  effects :: "('a, 'e) event list"

definition initial_state :: "('a, 'e) hook_state" where
  "initial_state = \<lparr>status = Idle, stepStatus = StepIdle, effects = []\<rparr>"

text \<open>
  What the closure \<open>fulfillListing\<close> captures: the burner wallet (\<open>useBurnerWallet\<close>,
  possibly undefined), the configuration (\<open>useConfig\<close>, possibly undefined), the two
  external operations, and the runtime's string-to-number parser.
\<close>

record ('a, 'w, 'e) hook_env =
  arkAccount :: "'w option"
  config :: "Config option"
  approveERC20 :: "'a ApproveERC20Parameters \<Rightarrow> ('e, unit) promise"
  fulfillListingCore :: "Config option \<Rightarrow> 'a FulfillListingCall \<Rightarrow> ('e, unit) promise"
  stringToNumber :: "string \<Rightarrow> jsnumber"

subsection \<open>Operations\<close>

definition emit :: "('a, 'e) event \<Rightarrow> ('a, 'e) hook_state \<Rightarrow> ('a, 'e) hook_state" where
  "emit ev s = s\<lparr>effects := effects s @ [ev]\<rparr>"

definition setStatus :: "Status \<Rightarrow> ('a, 'e) hook_state \<Rightarrow> ('a, 'e) hook_state" where
  "setStatus v s = emit (SetStatus v) (s\<lparr>status := v\<rparr>)"

definition setStepStatus :: "StepStatus \<Rightarrow> ('a, 'e) hook_state \<Rightarrow> ('a, 'e) hook_state" where
  "setStepStatus v s = emit (SetStepStatus v) (s\<lparr>stepStatus := v\<rparr>)"

text \<open>\<open>config?.starknetContracts.eth\<close>: undefined when there is no configuration.\<close>

definition config_eth :: "Config option \<Rightarrow> jsval" where
  "config_eth c = (case c of None \<Rightarrow> JUndefined | Some cfg \<Rightarrow> JString (eth (starknetContracts cfg)))"

text \<open>The argument of \<open>approveERC20\<close> (lines 33 to 38).\<close>

definition approve_request ::
  "('a, 'w, 'e) hook_env \<Rightarrow> 'a fulfillListingParameters \<Rightarrow> 'a ApproveERC20Parameters" where
  "approve_request env parameters =
     \<lparr>starknetAccount = starknetAccount parameters,
      startAmount = JNumber (Number_js (stringToNumber env) (startAmount parameters)),
      currencyAddress = js_or (currencyAddress parameters) (config_eth (config env))\<rparr>"

text \<open>The second argument of \<open>fulfillListingCore\<close> (lines 40 to 53).\<close>

definition fulfill_request ::
  "('a, 'w, 'e) hook_env \<Rightarrow> 'a fulfillListingParameters \<Rightarrow> 'a FulfillListingCall" where
  "fulfill_request env parameters =
     \<lparr>call_starknetAccount = starknetAccount parameters,
      fulfillListingInfo =
        \<lparr>info_orderHash = orderHash parameters,
         info_tokenAddress = tokenAddress parameters,
         info_tokenId = tokenId parameters,
         info_brokerId = brokerId parameters\<rparr>,
      approveInfo =
        \<lparr>approve_currencyAddress = js_or (currencyAddress parameters) (config_eth (config env)),
         amount = startAmount parameters\<rparr>\<rparr>"

text \<open>The \<open>catch\<close> block (lines 56 to 60).\<close>

definition catch_block :: "'e \<Rightarrow> ('a, 'e) hook_state \<Rightarrow> ('a, 'e) hook_state" where
  "catch_block error s = setStepStatus StepError (setStatus Error (emit (ConsoleError error) s))"

text \<open>
  \<open>fulfillListing\<close> (lines 28 to 61). The result is the promise the async function
  returns and the state it leaves: the promise is rejected when there is no wallet, stays
  pending when an awaited call never settles, and is fulfilled otherwise.
\<close>

definition fulfillListing ::
  "('a, 'w, 'e) hook_env \<Rightarrow> 'a fulfillListingParameters \<Rightarrow> ('a, 'e) hook_state
     \<Rightarrow> (js_error, unit) promise \<times> ('a, 'e) hook_state" where
  "fulfillListing env parameters s =
     (case arkAccount env of
        None \<Rightarrow> (Rejected (JsError ''No burner wallet.''), s)
      | Some _ \<Rightarrow>
          let s1 = setStepStatus Approving (setStatus Loading s);
              req = approve_request env parameters;
              s2 = emit (CallApproveERC20 req) s1
          in case approveERC20 env req of
               Pending \<Rightarrow> (Pending, s2)
             | Rejected error \<Rightarrow> (Fulfilled (), catch_block error s2)
             | Fulfilled _ \<Rightarrow>
                 let s3 = setStepStatus Selling s2;
                     call = fulfill_request env parameters;
                     s4 = emit (CallFulfillListingCore (config env) call) s3
                 in case fulfillListingCore env (config env) call of
                      Pending \<Rightarrow> (Pending, s4)
                    | Rejected error \<Rightarrow> (Fulfilled (), catch_block error s4)
                    | Fulfilled _ \<Rightarrow>
                        (Fulfilled (), setStepStatus Sold (setStatus Success s4)))"

text \<open>
  The effects of one run: what \<open>fulfillListing\<close> appended to the log.
\<close>

definition run_effects ::
  "('a, 'w, 'e) hook_env \<Rightarrow> 'a fulfillListingParameters \<Rightarrow> ('a, 'e) hook_state
     \<Rightarrow> ('a, 'e) event list" where
  "run_effects env parameters s =
     drop (length (effects s)) (effects (snd (fulfillListing env parameters s)))"

fun is_external_call :: "('a, 'e) event \<Rightarrow> bool" where
  "is_external_call (CallApproveERC20 _) = True"
| "is_external_call (CallFulfillListingCore _ _) = True"
| "is_external_call _ = False"

text \<open>The currency address an effect hands to the SDK, when it is one of the two calls.\<close>

fun call_currency :: "('a, 'e) event \<Rightarrow> jsval option" where
  "call_currency (CallApproveERC20 a) = Some (currencyAddress a)"
| "call_currency (CallFulfillListingCore _ c) = Some (approve_currencyAddress (approveInfo c))"
| "call_currency _ = None"

section \<open>The deployment script\<close>

text \<open>
  \<open>declareDeploy\<close> of \<open>scripts/deployer/contracts/orderbook.js\<close>. The artifacts are
  \<open>{sierra: {abi, ...}, casm}\<close>; the ABI, the rest of the Sierra file, the CASM file and
  the provider are opaque and only passed on.
\<close>

record 'abi Sierra =
  abi :: 'abi

record ('abi, 'm, 'casm) Artifacts =
  sierra :: "('abi, 'm) Sierra_scheme"
  casm :: 'casm

record ConstructorData =
  admin :: jsval

text \<open>The argument of \<open>account.declareAndDeploy\<close>.\<close>

record ('abi, 'm, 'casm) DeclareAndDeployPayload =
  contract :: "('abi, 'm) Sierra_scheme"
  payload_casm :: 'casm
  constructorCalldata :: "string list"
  salt :: nat

text \<open>
  The part of its response the script reads: \<open>deployR.deploy.contract_address\<close>, which
  the provider library declares a string.
\<close>

record DeployResponse =
  contract_address :: string

record DeclareDeployResponse =
  deploy :: DeployResponse

text \<open>
  \<open>new sn.Contract(abi, address, provider)\<close>: the handle holds the three arguments it
  was constructed with. The address is a string, the type of the response field; on a
  string the constructor does not throw.
\<close>

datatype ('abi, 'p) Contract = Contract 'abi string 'p

text \<open>The account object, with the one method the script calls.\<close>

record ('abi, 'm, 'casm, 'e) Account =
  declareAndDeploy ::
    "('abi, 'm, 'casm) DeclareAndDeployPayload \<Rightarrow> ('e, DeclareDeployResponse) promise"

text \<open>
  The two library operations the script calls before the request, each returning or
  throwing: \<open>common.load_artifacts(path, name)\<close> and
  \<open>new sn.CallData(abi).compile(method, args)\<close>, the argument object being the list of
  its properties.
\<close>

record ('abi, 'm, 'casm, 'e) deploy_lib =
  load_artifacts :: "string \<Rightarrow> string \<Rightarrow> 'e + ('abi, 'm, 'casm) Artifacts"
  CallData_compile :: "'abi \<Rightarrow> string \<Rightarrow> (string \<times> jsval) list \<Rightarrow> 'e + string list"

text \<open>
  The result is the promise of the async function and the requests submitted to the
  account, in order.
\<close>

definition declareDeploy ::
  "('abi, 'm, 'casm, 'e) deploy_lib \<Rightarrow> string \<Rightarrow> ('abi, 'm, 'casm, 'e) Account \<Rightarrow> 'p
     \<Rightarrow> ConstructorData
     \<Rightarrow> ('e, ('abi, 'p) Contract) promise \<times> ('abi, 'm, 'casm) DeclareAndDeployPayload list" where
  "declareDeploy lib artifacts_path account provider constructorData =
     (case load_artifacts lib artifacts_path ''arkchain_orderbook'' of
        Inl error \<Rightarrow> (Rejected error, [])
      | Inr artifacts \<Rightarrow>
          (case CallData_compile lib (abi (sierra artifacts)) ''constructor''
                  [(''admin'', admin constructorData)] of
             Inl error \<Rightarrow> (Rejected error, [])
           | Inr contractConstructor \<Rightarrow>
               let request =
                     \<lparr>contract = sierra artifacts,
                      payload_casm = casm artifacts,
                      constructorCalldata = contractConstructor,
                      salt = 0x7777\<rparr>
               in case declareAndDeploy account request of
                    Pending \<Rightarrow> (Pending, [request])
                  | Rejected error \<Rightarrow> (Rejected error, [request])
                  | Fulfilled deployR \<Rightarrow>
                      (Fulfilled (Contract (abi (sierra artifacts))
                                   (contract_address (deploy deployR)) provider),
                       [request])))"

section \<open>Sample inputs\<close>

text \<open>
  A wallet, a configuration, and SDK calls that settle as the given promises. The sample
  never converts a string, so its parser is never consulted.
\<close>

definition sample_config :: Config where
  "sample_config = \<lparr>starknetContracts = \<lparr>eth = ''0x49d3''\<rparr>\<rparr>"

definition sample_env ::
  "string option \<Rightarrow> (string, unit) promise \<Rightarrow> (string, unit) promise
     \<Rightarrow> (string, string, string) hook_env" where
  "sample_env wallet approval fulfilment =
     \<lparr>arkAccount = wallet,
      config = Some sample_config,
      approveERC20 = (\<lambda>_. approval),
      fulfillListingCore = (\<lambda>_ _. fulfilment),
      stringToNumber = (\<lambda>_. NaN)\<rparr>"

definition sample_parameters :: "jsval \<Rightarrow> jsval \<Rightarrow> string fulfillListingParameters" where
  "sample_parameters amt currency =
     \<lparr>starknetAccount = ''buyer'',
      startAmount = amt,
      currencyAddress = currency,
      orderHash = JBigInt 17,
      tokenAddress = JString ''0x32d9'',
      tokenId = JBigInt 909,
      brokerId = JNumber (Finite 123)\<rparr>"

definition sample_artifacts :: "(string, unit, string) Artifacts" where
  "sample_artifacts = \<lparr>sierra = \<lparr>abi = ''orderbook-abi''\<rparr>, casm = ''orderbook-casm''\<rparr>"

definition sample_lib :: "(string, unit, string, string) deploy_lib" where
  "sample_lib =
     \<lparr>load_artifacts = (\<lambda>path name. Inr sample_artifacts),
      CallData_compile = (\<lambda>a method args. Inr [''0xad'']) \<rparr>"

definition sample_account :: "(string, unit, string, string) Account" where
  "sample_account =
     \<lparr>declareAndDeploy =
        (\<lambda>request. Fulfilled \<lparr>deploy = \<lparr>contract_address = ''0x0b00''\<rparr>\<rparr>)\<rparr>"

section \<open>Properties of the hook\<close>

lemmas hook_defs =
  fulfillListing_def catch_block_def setStatus_def setStepStatus_def emit_def Let_def

text \<open>
  The effects, the final status pair and the returned promise of a run, by the outcome of
  the two awaited calls.
\<close>

lemma run_effects_no_wallet:
  "arkAccount env = None \<Longrightarrow> run_effects env parameters s = []"
  by (simp add: run_effects_def fulfillListing_def)

lemma run_effects_wallet:
  "arkAccount env = Some w \<Longrightarrow>
   run_effects env parameters s =
     [SetStatus Loading, SetStepStatus Approving,
      CallApproveERC20 (approve_request env parameters)] @
     (case approveERC20 env (approve_request env parameters) of
        Pending \<Rightarrow> []
      | Rejected error \<Rightarrow> [ConsoleError error, SetStatus Error, SetStepStatus StepError]
      | Fulfilled _ \<Rightarrow>
          [SetStepStatus Selling,
           CallFulfillListingCore (config env) (fulfill_request env parameters)] @
          (case fulfillListingCore env (config env) (fulfill_request env parameters) of
             Pending \<Rightarrow> []
           | Rejected error \<Rightarrow> [ConsoleError error, SetStatus Error, SetStepStatus StepError]
           | Fulfilled _ \<Rightarrow> [SetStatus Success, SetStepStatus Sold]))"
  by (simp add: run_effects_def hook_defs split: promise.splits)

lemma final_status_wallet:
  "arkAccount env = Some w \<Longrightarrow>
   (status (snd (fulfillListing env parameters s)),
    stepStatus (snd (fulfillListing env parameters s))) =
     (case approveERC20 env (approve_request env parameters) of
        Pending \<Rightarrow> (Loading, Approving)
      | Rejected error \<Rightarrow> (Error, StepError)
      | Fulfilled _ \<Rightarrow>
          (case fulfillListingCore env (config env) (fulfill_request env parameters) of
             Pending \<Rightarrow> (Loading, Selling)
           | Rejected error \<Rightarrow> (Error, StepError)
           | Fulfilled _ \<Rightarrow> (Success, Sold)))"
  by (simp add: hook_defs split: promise.splits)

lemma promise_wallet:
  "arkAccount env = Some w \<Longrightarrow>
   fst (fulfillListing env parameters s) =
     (case approveERC20 env (approve_request env parameters) of
        Pending \<Rightarrow> Pending
      | Rejected error \<Rightarrow> Fulfilled ()
      | Fulfilled _ \<Rightarrow>
          (case fulfillListingCore env (config env) (fulfill_request env parameters) of
             Pending \<Rightarrow> Pending
           | _ \<Rightarrow> Fulfilled ()))"
  by (simp add: hook_defs split: promise.splits)

lemma js_or_falsy: "falsy a \<Longrightarrow> js_or a b = b"
  by (simp add: js_or_def)

text \<open>
  \<open>Number\<close> returns a number unchanged; a bigint beyond \<open>2^53\<close> is rounded.
\<close>

lemma Number_js_number: "Number_js str2num (JNumber n) = n"
  by simp

lemma Number_of_bigint_rounds: "Number_of_bigint 9007199254740993 = Finite 9007199254740992"
  by code_simp


text \<open>
  C1. With a burner wallet, when \<open>approveERC20\<close> and then \<open>fulfillListingCore\<close>
  both settle successfully, \<open>fulfillListing\<close> completes and leaves the status
  "success" and the step status "sold".
\<close>

theorem approval_then_fulfilment_succeeds:
  assumes "arkAccount env = Some w"
    and "approveERC20 env (approve_request env parameters) = Fulfilled ()"
    and "fulfillListingCore env (config env) (fulfill_request env parameters) = Fulfilled ()"
  shows "fst (fulfillListing env parameters s) = Fulfilled ()
       \<and> status (snd (fulfillListing env parameters s)) = Success
       \<and> stepStatus (snd (fulfillListing env parameters s)) = Sold"
  using assms by (simp add: hook_defs)

theorem approval_then_fulfilment_succeeds_witness:
  "arkAccount (sample_env (Some ''burner'') (Fulfilled ()) (Fulfilled ())) = Some ''burner''
   \<and> fst (fulfillListing (sample_env (Some ''burner'') (Fulfilled ()) (Fulfilled ()))
            (sample_parameters (JBigInt 5) JUndefined) initial_state) = Fulfilled ()
   \<and> status (snd (fulfillListing (sample_env (Some ''burner'') (Fulfilled ()) (Fulfilled ()))
            (sample_parameters (JBigInt 5) JUndefined) initial_state)) = Success
   \<and> stepStatus (snd (fulfillListing (sample_env (Some ''burner'') (Fulfilled ()) (Fulfilled ()))
            (sample_parameters (JBigInt 5) JUndefined) initial_state)) = Sold"
  using approval_then_fulfilment_succeeds
          [of "sample_env (Some ''burner'') (Fulfilled ()) (Fulfilled ())" "''burner''"
              "sample_parameters (JBigInt 5) JUndefined" initial_state]
  by (simp add: sample_env_def)

text \<open>
  C2. With a burner wallet, when \<open>approveERC20\<close> fails, the run never calls
  \<open>fulfillListingCore\<close>, it completes, and it leaves both the status and the step status
  at "error".
\<close>

theorem failed_approval_skips_fulfilment:
  assumes "arkAccount env = Some w"
    and "approveERC20 env (approve_request env parameters) = Rejected error"
  shows "(\<forall>c call. CallFulfillListingCore c call \<notin> set (run_effects env parameters s))
       \<and> fst (fulfillListing env parameters s) = Fulfilled ()
       \<and> status (snd (fulfillListing env parameters s)) = Error
       \<and> stepStatus (snd (fulfillListing env parameters s)) = StepError"
  using assms run_effects_wallet [OF assms(1), of parameters s]
  by (simp add: hook_defs)

theorem failed_approval_skips_fulfilment_witness:
  "arkAccount (sample_env (Some ''burner'') (Rejected ''denied'') (Fulfilled ())) = Some ''burner''
   \<and> (\<forall>c call. CallFulfillListingCore c call \<notin>
         set (run_effects (sample_env (Some ''burner'') (Rejected ''denied'') (Fulfilled ()))
                (sample_parameters (JBigInt 5) JUndefined) initial_state))
   \<and> status (snd (fulfillListing (sample_env (Some ''burner'') (Rejected ''denied'') (Fulfilled ()))
            (sample_parameters (JBigInt 5) JUndefined) initial_state)) = Error
   \<and> stepStatus (snd (fulfillListing (sample_env (Some ''burner'') (Rejected ''denied'') (Fulfilled ()))
            (sample_parameters (JBigInt 5) JUndefined) initial_state)) = StepError"
  using failed_approval_skips_fulfilment
          [of "sample_env (Some ''burner'') (Rejected ''denied'') (Fulfilled ())" "''burner''"
              "sample_parameters (JBigInt 5) JUndefined" "''denied''" initial_state]
  by (simp add: sample_env_def)

text \<open>
  C3. With a burner wallet, when \<open>approveERC20\<close> succeeds and \<open>fulfillListingCore\<close>
  then fails, the run completes with both the status and the step status at "error", and
  the external calls of the run are exactly the approval and the fulfilment: nothing is
  called to undo the approval.
\<close>

theorem failed_fulfilment_keeps_approval:
  assumes "arkAccount env = Some w"
    and "approveERC20 env (approve_request env parameters) = Fulfilled ()"
    and "fulfillListingCore env (config env) (fulfill_request env parameters) = Rejected error"
  shows "fst (fulfillListing env parameters s) = Fulfilled ()
       \<and> status (snd (fulfillListing env parameters s)) = Error
       \<and> stepStatus (snd (fulfillListing env parameters s)) = StepError
       \<and> filter is_external_call (run_effects env parameters s) =
           [CallApproveERC20 (approve_request env parameters),
            CallFulfillListingCore (config env) (fulfill_request env parameters)]"
  using assms run_effects_wallet [OF assms(1), of parameters s]
  by (simp add: hook_defs)

theorem failed_fulfilment_keeps_approval_witness:
  "arkAccount (sample_env (Some ''burner'') (Fulfilled ()) (Rejected ''reverted'')) = Some ''burner''
   \<and> status (snd (fulfillListing (sample_env (Some ''burner'') (Fulfilled ()) (Rejected ''reverted''))
            (sample_parameters (JBigInt 5) JUndefined) initial_state)) = Error
   \<and> stepStatus (snd (fulfillListing (sample_env (Some ''burner'') (Fulfilled ()) (Rejected ''reverted''))
            (sample_parameters (JBigInt 5) JUndefined) initial_state)) = StepError
   \<and> length (filter is_external_call
        (run_effects (sample_env (Some ''burner'') (Fulfilled ()) (Rejected ''reverted''))
           (sample_parameters (JBigInt 5) JUndefined) initial_state)) = 2"
  using failed_fulfilment_keeps_approval
          [of "sample_env (Some ''burner'') (Fulfilled ()) (Rejected ''reverted'')" "''burner''"
              "sample_parameters (JBigInt 5) JUndefined" "''reverted''" initial_state]
  by (simp add: sample_env_def)

text \<open>
  C4. When the currency address of the parameters is falsy (undefined, an empty string,
  a zero or not-a-number), every call of the run to \<open>approveERC20\<close> or \<open>fulfillListingCore\<close> receives
  as its currency address the value of \<open>config?.starknetContracts.eth\<close>: the configured
  address of the native token (and undefined when there is no configuration at all).
\<close>

theorem omitted_currency_falls_back_to_eth:
  assumes "falsy (currencyAddress parameters)"
  shows "\<forall>ev \<in> set (run_effects env parameters s). \<forall>c. call_currency ev = Some c \<longrightarrow>
           c = (case config env of
                  None \<Rightarrow> JUndefined
                | Some cfg \<Rightarrow> JString (eth (starknetContracts cfg)))"
proof (cases "arkAccount env")
  case None
  then show ?thesis by (simp add: run_effects_no_wallet)
next
  case (Some w)
  have a: "currencyAddress (approve_request env parameters) = config_eth (config env)"
    using assms by (simp add: approve_request_def js_or_falsy)
  have f: "approve_currencyAddress (approveInfo (fulfill_request env parameters)) =
             config_eth (config env)"
    using assms by (simp add: fulfill_request_def js_or_falsy)
  show ?thesis
    unfolding run_effects_wallet [OF Some]
    using a f by (auto simp: config_eth_def split: promise.splits)
qed

theorem omitted_currency_falls_back_to_eth_witness:
  "falsy (currencyAddress (sample_parameters (JBigInt 5) JUndefined))
   \<and> CallApproveERC20
         (approve_request (sample_env (Some ''burner'') (Fulfilled ()) (Fulfilled ()))
            (sample_parameters (JBigInt 5) JUndefined))
       \<in> set (run_effects (sample_env (Some ''burner'') (Fulfilled ()) (Fulfilled ()))
                (sample_parameters (JBigInt 5) JUndefined) initial_state)
   \<and> currencyAddress
         (approve_request (sample_env (Some ''burner'') (Fulfilled ()) (Fulfilled ()))
            (sample_parameters (JBigInt 5) JUndefined)) = JString ''0x49d3''
   \<and> CallFulfillListingCore (Some sample_config)
         (fulfill_request (sample_env (Some ''burner'') (Fulfilled ()) (Fulfilled ()))
            (sample_parameters (JBigInt 5) JUndefined))
       \<in> set (run_effects (sample_env (Some ''burner'') (Fulfilled ()) (Fulfilled ()))
                (sample_parameters (JBigInt 5) JUndefined) initial_state)
   \<and> approve_currencyAddress (approveInfo
         (fulfill_request (sample_env (Some ''burner'') (Fulfilled ()) (Fulfilled ()))
            (sample_parameters (JBigInt 5) JUndefined))) = JString ''0x49d3''"
proof -
  let ?E = "sample_env (Some ''burner'') (Fulfilled ()) (Fulfilled ())"
  let ?P = "sample_parameters (JBigInt 5) JUndefined"
  have h: "falsy (currencyAddress ?P)"
    by (simp add: sample_parameters_def)
  have w: "arkAccount ?E = Some ''burner''"
    by (simp add: sample_env_def)
  have c: "config ?E = Some sample_config"
    by (simp add: sample_env_def)
  have ma: "CallApproveERC20 (approve_request ?E ?P) \<in> set (run_effects ?E ?P initial_state)"
    unfolding run_effects_wallet [OF w] by simp
  have mf: "CallFulfillListingCore (Some sample_config) (fulfill_request ?E ?P)
              \<in> set (run_effects ?E ?P initial_state)"
    unfolding run_effects_wallet [OF w] by (simp add: sample_env_def)
  note all = omitted_currency_falls_back_to_eth [OF h, of ?E initial_state]
  have a: "currencyAddress (approve_request ?E ?P) = JString ''0x49d3''"
    using all ma by (fastforce simp: c sample_config_def)
  have f: "approve_currencyAddress (approveInfo (fulfill_request ?E ?P)) = JString ''0x49d3''"
    using all mf by (fastforce simp: c sample_config_def)
  show ?thesis
    using h ma mf a f by simp
qed



text \<open>
  C6. When the burner wallet is absent, \<open>fulfillListing\<close> fails at once with the error
  "No burner wallet.", and the run performs no effect at all: in particular neither
  \<open>approveERC20\<close> nor \<open>fulfillListingCore\<close> is called.
\<close>

theorem no_wallet_fails_before_any_call:
  assumes "arkAccount env = None"
  shows "fst (fulfillListing env parameters s) = Rejected (JsError ''No burner wallet.'')
       \<and> run_effects env parameters s = []
       \<and> filter is_external_call (run_effects env parameters s) = []"
  using assms by (simp add: run_effects_def fulfillListing_def)

theorem no_wallet_fails_before_any_call_witness:
  "arkAccount (sample_env None (Fulfilled ()) (Fulfilled ())) = None
   \<and> fst (fulfillListing (sample_env None (Fulfilled ()) (Fulfilled ()))
            (sample_parameters (JBigInt 5) JUndefined) initial_state) =
       Rejected (JsError ''No burner wallet.'')
   \<and> run_effects (sample_env None (Fulfilled ()) (Fulfilled ()))
        (sample_parameters (JBigInt 5) JUndefined) initial_state = []"
  using no_wallet_fails_before_any_call
          [of "sample_env None (Fulfilled ()) (Fulfilled ())"
              "sample_parameters (JBigInt 5) JUndefined" initial_state]
  by (simp add: sample_env_def)

text \<open>
  C7. With a burner wallet, the effects of a run are, in this order: status "loading",
  step "approving", the approval call; then, if the approval succeeds, step "selling" and
  the fulfilment call; then status "success" and step "sold" if the fulfilment succeeds
  too. A call that fails is followed by the logging of its error, status "error" and step
  "error", and ends the run; a call that never settles is the last effect. Nothing else is
  assigned.
\<close>

theorem status_writes_in_order:
  assumes "arkAccount env = Some w"
  shows "effects (snd (fulfillListing env parameters s)) =
     effects s @
     [SetStatus Loading, SetStepStatus Approving,
      CallApproveERC20 (approve_request env parameters)] @
     (case approveERC20 env (approve_request env parameters) of
        Pending \<Rightarrow> []
      | Rejected error \<Rightarrow> [ConsoleError error, SetStatus Error, SetStepStatus StepError]
      | Fulfilled _ \<Rightarrow>
          [SetStepStatus Selling,
           CallFulfillListingCore (config env) (fulfill_request env parameters)] @
          (case fulfillListingCore env (config env) (fulfill_request env parameters) of
             Pending \<Rightarrow> []
           | Rejected error \<Rightarrow> [ConsoleError error, SetStatus Error, SetStepStatus StepError]
           | Fulfilled _ \<Rightarrow> [SetStatus Success, SetStepStatus Sold]))"
  using assms by (simp add: hook_defs split: promise.splits)

theorem status_writes_in_order_witness:
  "arkAccount (sample_env (Some ''burner'') (Fulfilled ()) (Rejected ''reverted'')) = Some ''burner''
   \<and> filter (\<lambda>ev. \<not> is_external_call ev)
       (effects (snd (fulfillListing (sample_env (Some ''burner'') (Fulfilled ()) (Rejected ''reverted''))
                       (sample_parameters (JBigInt 5) JUndefined) initial_state))) =
       [SetStatus Loading, SetStepStatus Approving, SetStepStatus Selling,
        ConsoleError ''reverted'', SetStatus Error, SetStepStatus StepError]"
  using status_writes_in_order
          [of "sample_env (Some ''burner'') (Fulfilled ()) (Rejected ''reverted'')" "''burner''"
              "sample_parameters (JBigInt 5) JUndefined" initial_state]
  by (simp add: sample_env_def initial_state_def)

text \<open>
  C9. When the burner wallet is absent, the run leaves the state of the hook as it was:
  the status and the step status keep their values, which on a first invocation are both
  "idle", and "error" is not written.
\<close>

theorem no_wallet_leaves_status_untouched:
  assumes "arkAccount env = None"
  shows "snd (fulfillListing env parameters s) = s
       \<and> status (snd (fulfillListing env parameters initial_state)) = Idle
       \<and> stepStatus (snd (fulfillListing env parameters initial_state)) = StepIdle"
  using assms by (simp add: fulfillListing_def initial_state_def)

theorem no_wallet_leaves_status_untouched_witness:
  "arkAccount (sample_env None (Rejected ''denied'') (Fulfilled ())) = None
   \<and> snd (fulfillListing (sample_env None (Rejected ''denied'') (Fulfilled ()))
            (sample_parameters (JBigInt 5) JUndefined)
            \<lparr>status = Success, stepStatus = Sold, effects = []\<rparr>) =
       \<lparr>status = Success, stepStatus = Sold, effects = []\<rparr>"
  using no_wallet_leaves_status_untouched
          [of "sample_env None (Rejected ''denied'') (Fulfilled ())"
              "sample_parameters (JBigInt 5) JUndefined"
              "\<lparr>status = Success, stepStatus = Sold, effects = []\<rparr>"]
  by (simp add: sample_env_def)

text \<open>
  C10. With a burner wallet, a run that completes leaves the status and the step status
  at "success" and "sold", or at "error" and "error": the step is "sold" exactly when the
  status is "success", and "error" exactly when the status is "error".
\<close>

theorem completed_run_status_pairs:
  assumes "arkAccount env = Some w"
    and "fst (fulfillListing env parameters s) = Fulfilled ()"
  shows "((status (snd (fulfillListing env parameters s)) = Success
            \<and> stepStatus (snd (fulfillListing env parameters s)) = Sold)
          \<or> (status (snd (fulfillListing env parameters s)) = Error
            \<and> stepStatus (snd (fulfillListing env parameters s)) = StepError))
       \<and> (stepStatus (snd (fulfillListing env parameters s)) = Sold
            \<longleftrightarrow> status (snd (fulfillListing env parameters s)) = Success)
       \<and> (stepStatus (snd (fulfillListing env parameters s)) = StepError
            \<longleftrightarrow> status (snd (fulfillListing env parameters s)) = Error)"
proof -
  have settled: "approveERC20 env (approve_request env parameters) \<noteq> Pending"
    using assms promise_wallet [OF assms(1), of parameters s] by auto
  show ?thesis
  proof (cases "approveERC20 env (approve_request env parameters)")
    case Pending
    with settled show ?thesis by simp
  next
    case (Rejected error)
    then show ?thesis
      using final_status_wallet [OF assms(1), of parameters s] by simp
  next
    case (Fulfilled u)
    then show ?thesis
      using assms(2) promise_wallet [OF assms(1), of parameters s]
        final_status_wallet [OF assms(1), of parameters s]
      by (cases "fulfillListingCore env (config env) (fulfill_request env parameters)") auto
  qed
qed

theorem completed_run_status_pairs_witness:
  "arkAccount (sample_env (Some ''burner'') (Fulfilled ()) (Rejected ''reverted'')) = Some ''burner''
   \<and> fst (fulfillListing (sample_env (Some ''burner'') (Fulfilled ()) (Rejected ''reverted''))
            (sample_parameters (JBigInt 5) JUndefined) initial_state) = Fulfilled ()
   \<and> stepStatus (snd (fulfillListing (sample_env (Some ''burner'') (Fulfilled ()) (Rejected ''reverted''))
            (sample_parameters (JBigInt 5) JUndefined) initial_state)) \<noteq> Sold
   \<and> status (snd (fulfillListing (sample_env (Some ''burner'') (Fulfilled ()) (Rejected ''reverted''))
            (sample_parameters (JBigInt 5) JUndefined) initial_state)) = Error"
proof -
  have w: "arkAccount (sample_env (Some ''burner'') (Fulfilled ()) (Rejected ''reverted'')) =
             Some ''burner''"
    by (simp add: sample_env_def)
  have r: "fst (fulfillListing (sample_env (Some ''burner'') (Fulfilled ()) (Rejected ''reverted''))
            (sample_parameters (JBigInt 5) JUndefined) initial_state) = Fulfilled ()"
    by (simp add: sample_env_def hook_defs)
  have e: "stepStatus (snd (fulfillListing (sample_env (Some ''burner'') (Fulfilled ()) (Rejected ''reverted''))
            (sample_parameters (JBigInt 5) JUndefined) initial_state)) = StepError"
    by (simp add: sample_env_def hook_defs)
  show ?thesis
    using w r e completed_run_status_pairs [OF w r] by simp
qed

section \<open>Properties of the deployment script\<close>

text \<open>
  C8. When the artifacts load, the constructor call data compiles and the account's
  \<open>declareAndDeploy\<close> succeeds, \<open>declareDeploy\<close> submits exactly one request, carrying
  the loaded Sierra and CASM files, the compiled call data and the salt \<open>0x7777\<close>, and
  returns the contract handle built from the loaded ABI, the contract address of the
  deploy response and the given provider.
\<close>

theorem declareDeploy_returns_deployed_contract:
  assumes "load_artifacts lib artifacts_path ''arkchain_orderbook'' = Inr artifacts"
    and "CallData_compile lib (abi (sierra artifacts)) ''constructor''
           [(''admin'', admin constructorData)] = Inr calldata"
    and "declareAndDeploy account
           \<lparr>contract = sierra artifacts, payload_casm = casm artifacts,
            constructorCalldata = calldata, salt = 0x7777\<rparr> = Fulfilled deployR"
  shows "declareDeploy lib artifacts_path account provider constructorData =
           (Fulfilled (Contract (abi (sierra artifacts))
                         (contract_address (deploy deployR)) provider),
            [\<lparr>contract = sierra artifacts, payload_casm = casm artifacts,
              constructorCalldata = calldata, salt = 0x7777\<rparr>])"
  using assms by (simp add: declareDeploy_def)

theorem declareDeploy_returns_deployed_contract_witness:
  "load_artifacts sample_lib ''./artifacts'' ''arkchain_orderbook'' = Inr sample_artifacts
   \<and> declareDeploy sample_lib ''./artifacts'' sample_account ''provider''
         \<lparr>admin = JString ''0x0ad1''\<rparr> =
       (Fulfilled (Contract ''orderbook-abi'' ''0x0b00'' ''provider''),
        [\<lparr>contract = \<lparr>abi = ''orderbook-abi''\<rparr>, payload_casm = ''orderbook-casm'',
          constructorCalldata = [''0xad''], salt = 30583\<rparr>])"
  using declareDeploy_returns_deployed_contract
          [of sample_lib "''./artifacts''" sample_artifacts "\<lparr>admin = JString ''0x0ad1''\<rparr>"
              "[''0xad'']" sample_account
              "\<lparr>deploy = \<lparr>contract_address = ''0x0b00''\<rparr>\<rparr>" "''provider''"]
  by (simp add: sample_lib_def sample_account_def sample_artifacts_def)

end
